theory Spec2Isabelle
  imports Complex_Main
begin

section \<open>JavaScript values used by the chase service\<close>

text \<open>
  The chase service (\<^verbatim>\<open>backend/src/services/chase-service.js\<close>) works on rows of the
  \<^verbatim>\<open>invoices\<close> table as the database driver hands them over, on the \<^verbatim>\<open>app_config\<close>
  key/value map and on two clocks. Numbers are modelled as mathematical integers with an
  explicit \<open>NaN\<close>, which is what the code's doubles hold for every whole number below
  2^53; time values are milliseconds since the epoch, as \<^verbatim>\<open>Date.getTime()\<close> returns them.
\<close>

datatype jsnum = NaN | Num int

fun js_ge :: "jsnum \<Rightarrow> int \<Rightarrow> bool" where
  "js_ge NaN b = False"
| "js_ge (Num a) b = (b \<le> a)"

fun js_lt :: "jsnum \<Rightarrow> int \<Rightarrow> bool" where
  "js_lt NaN b = False"
| "js_lt (Num a) b = (a < b)"

text \<open>
  A date column as the driver returns it: \<open>DNull\<close> for SQL NULL, \<open>DStr\<close> for a text value
  (SQLite), \<open>DObj\<close> for a \<^verbatim>\<open>Date\<close> object (PostgreSQL), whose time value is \<open>None\<close> when
  the object is an Invalid Date.
\<close>

datatype datefield = DNull | DStr string | DObj "int option"

text \<open>A flag column: absent from the row (\<^verbatim>\<open>undefined\<close>), SQL NULL, a number or a boolean.\<close>

datatype jsflag = Undefined | FNull | FNum int | FBool bool

subsection \<open>\<^verbatim>\<open>parseInt(s, 10)\<close> and \<^verbatim>\<open>String.prototype.split('-')\<close>\<close>

definition is_ws :: "char \<Rightarrow> bool" where
  "is_ws c = (of_char c \<in> {9, 10, 11, 12, 13, 32 :: nat})"

definition is_digit :: "char \<Rightarrow> bool" where
  "is_digit c = (48 \<le> (of_char c :: nat) \<and> (of_char c :: nat) \<le> 57)"

definition digits_value :: "string \<Rightarrow> int" where
  "digits_value ds = foldl (\<lambda>a c. 10 * a + (int (of_char c) - 48)) 0 ds"

text \<open>
  \<^verbatim>\<open>parseInt(s, 10)\<close>: leading white space is skipped, one sign is read, then the longest
  run of decimal digits; no digit at all gives \<open>NaN\<close>, and whatever follows the digits is
  ignored. Strings are byte strings here, and the white space is that of ASCII (tab, line
  feed, vertical tab, form feed, carriage return, space).
\<close>

definition parseInt10 :: "string \<Rightarrow> jsnum" where
  "parseInt10 s =
     (let t = dropWhile is_ws s;
          neg = (case t of c # _ \<Rightarrow> c = CHR ''-'' | [] \<Rightarrow> False);
          r = (case t of c # cs \<Rightarrow> (if c = CHR ''-'' \<or> c = CHR ''+'' then cs else t) | [] \<Rightarrow> []);
          ds = takeWhile is_digit r
      in if ds = [] then NaN
         else Num (if neg then - digits_value ds else digits_value ds))"

fun split_on :: "char \<Rightarrow> string \<Rightarrow> string list" where
  "split_on c [] = [[]]"
| "split_on c (x # xs) =
     (if x = c then [] # split_on c xs
      else (case split_on c xs of p # ps \<Rightarrow> (x # p) # ps | [] \<Rightarrow> [[x]]))"

subsection \<open>\<^verbatim>\<open>Date.UTC(y, m, d)\<close>\<close>

text \<open>
  The day arithmetic of ECMAScript (DayFromYear, MakeDay, TimeClip). A two-digit year
  counts from 1900; a month outside 0..11 carries into the year; a time value beyond
  8.64e15 ms is no date (\<open>None\<close>: the Date object is an Invalid Date).
\<close>

definition msPerDay :: int where
  "msPerDay = 24 * 60 * 60 * 1000"

definition DayFromYear :: "int \<Rightarrow> int" where
  "DayFromYear y = 365 * (y - 1970) + (y - 1969) div 4 - (y - 1901) div 100 + (y - 1601) div 400"

definition InLeapYear :: "int \<Rightarrow> bool" where
  "InLeapYear y = ((y mod 4 = 0 \<and> y mod 100 \<noteq> 0) \<or> y mod 400 = 0)"

definition DaysBeforeMonth :: "int \<Rightarrow> bool \<Rightarrow> int" where
  "DaysBeforeMonth mn leap =
     (let l = (if leap then 1 else 0) in
      if mn = 0 then 0 else if mn = 1 then 31 else if mn = 2 then 59 + l
      else if mn = 3 then 90 + l else if mn = 4 then 120 + l else if mn = 5 then 151 + l
      else if mn = 6 then 181 + l else if mn = 7 then 212 + l else if mn = 8 then 243 + l
      else if mn = 9 then 273 + l else if mn = 10 then 304 + l else 334 + l)"

definition MakeDay :: "int \<Rightarrow> int \<Rightarrow> int \<Rightarrow> int" where
  "MakeDay year month date =
     (let ym = year + month div 12; mn = month mod 12
      in DayFromYear ym + DaysBeforeMonth mn (InLeapYear ym) + date - 1)"

definition TimeClip :: "int \<Rightarrow> int option" where
  "TimeClip t = (if \<bar>t\<bar> > 8640000000000000 then None else Some t)"

definition Date_UTC :: "int \<Rightarrow> int \<Rightarrow> int \<Rightarrow> int option" where
  "Date_UTC y m d =
     (let yr = (if 0 \<le> y \<and> y \<le> 99 then 1900 + y else y)
      in TimeClip (MakeDay yr m d * msPerDay))"

section \<open>Data model\<close>

text \<open>
  A row of \<^verbatim>\<open>invoices\<close>, also the object a query returns for it. The columns are those the
  chase service and the invoice routes read or write; \<open>iid\<close> is the column \<^verbatim>\<open>id\<close>.
  A column that a SELECT list leaves out is \<^verbatim>\<open>undefined\<close> on the object.
\<close>

record invoice =
  iid :: int
  stripe_invoice_id :: string
  customer_email :: string
  customer_name :: string
  amount :: string
  due_date :: datefield
  status :: string
  overdue_days :: "int option"
  last_chase_date :: datefield
  chase_count :: "int option"
  chase_paused :: jsflag
  updated_at :: datefield

text \<open>A row of \<^verbatim>\<open>chase_emails\<close>, with the columns the INSERT of the service fills.\<close>

record chase_email =
  ce_invoice_id :: int
  ce_template_id :: "int option"
  ce_overdue_day :: "int option"
  ce_generated_text :: string
  ce_subject_line :: string
  ce_sent_at :: datefield
  ce_status :: string
  ce_sent_to :: string

record email_content =
  subject :: string
  body :: string

text \<open>The first argument of \<^verbatim>\<open>aiEmailService.generateChaseEmail\<close>.\<close>

record chase_facts =
  cf_stripe_invoice_id :: string
  cf_customer_email :: string
  cf_customer_name :: string
  cf_amount :: string
  cf_due_date :: datefield
  cf_overdue_days :: jsnum

text \<open>A message handed to \<^verbatim>\<open>gmailService.sendChaseEmail\<close> and accepted by it.\<close>

record chase_mail =
  cm_stripe_invoice_id :: string
  cm_customer_email :: string
  cm_customer_name :: string
  cm_content :: email_content
  cm_paymentLink :: "string option"

record options =
  bypassPaused :: bool
  bypassInterval :: bool

datatype error = CollaboratorError string | StoreError string | RangeError

datatype query =
    SelectAppConfig
  | SelectCandidates
  | SelectInvoice int
  | InsertChaseEmail int
  | UpdateInvoice int

text \<open>
  What the service does not own: the clock (\<open>nowProvider E n\<close> is the \<open>n\<close>-th reading of
  \<^verbatim>\<open>this.nowProvider()\<close>), the engine's parsing of a date string (\<^verbatim>\<open>new Date(s)\<close>), the
  three collaborators (an \<open>Inl\<close> result is a rejected promise), the database's
  \<^verbatim>\<open>CURRENT_TIMESTAMP\<close> and its test \<^verbatim>\<open>due_date < CURRENT_DATE\<close>, and whether
  \<^verbatim>\<open>executeQuery\<close> rejects a query. Within one environment a collaborator answers the
  same request in the same way; a sequence of calls in which it does not is a sequence of
  environments.
\<close>

record env =
  nowProvider :: "nat \<Rightarrow> int"
  Date_parse :: "string \<Rightarrow> int option"
  getPaymentLink :: "string \<Rightarrow> error + string"
  generateChaseEmail :: "chase_facts \<Rightarrow> string \<Rightarrow> error + email_content"
  sendChaseEmail :: "chase_mail \<Rightarrow> error + unit"
  CURRENT_TIMESTAMP :: datefield
  due_before_CURRENT_DATE :: "datefield \<Rightarrow> bool"
  query_error :: "query \<Rightarrow> error option"

text \<open>
  The state: the two tables, the rows of \<^verbatim>\<open>app_config\<close> and the messages the delivery
  collaborator has accepted.
\<close>

record world =
  invoices :: "invoice list"
  chase_emails :: "chase_email list"
  app_config :: "(string \<times> string option) list"
  outbox :: "chase_mail list"

section \<open>The chase service\<close>

text \<open>\<^verbatim>\<open>getAppConfigMap\<close>: a later row of the same key replaces an earlier one.\<close>

definition config_of_rows :: "(string \<times> string option) list \<Rightarrow> (string \<rightharpoonup> string)" where
  "config_of_rows rows = fold (\<lambda>(k, v) m. m(k := v)) rows Map.empty"

definition getAppConfigMap :: "env \<Rightarrow> world \<Rightarrow> error + (string \<rightharpoonup> string)" where
  "getAppConfigMap E w =
     (case query_error E SelectAppConfig of
        Some e \<Rightarrow> Inl e
      | None \<Rightarrow> Inr (config_of_rows (app_config w)))"

text \<open>\<^verbatim>\<open>configMap.get(k) || d\<close>: a missing key, NULL and the empty string give \<open>d\<close>.\<close>

definition get_or :: "(string \<rightharpoonup> string) \<Rightarrow> string \<Rightarrow> string \<Rightarrow> string" where
  "get_or configMap k d = (case configMap k of None \<Rightarrow> d | Some v \<Rightarrow> if v = [] then d else v)"

definition getIntervalHoursForOverdueDays :: "jsnum \<Rightarrow> int option" where
  "getIntervalHoursForOverdueDays daysOverdue =
     (if js_ge daysOverdue 10 then Some 24
      else if js_ge daysOverdue 7 then Some 48
      else if js_ge daysOverdue 5 then Some 72
      else None)"

text \<open>
  \<^verbatim>\<open>parseDateOnly\<close>: \<open>None\<close> is \<^verbatim>\<open>null\<close>, \<open>Some None\<close> a Date object that is an
  Invalid Date. A Date object given as input prints as text that starts with a letter,
  so its first part parses to \<open>NaN\<close> and \<^verbatim>\<open>new Date(dateStr)\<close> copies it.
\<close>

definition parseDateOnly :: "env \<Rightarrow> datefield \<Rightarrow> int option option" where
  "parseDateOnly E dateStr =
     (case dateStr of
        DNull \<Rightarrow> None
      | DStr s \<Rightarrow>
          if s = [] then None
          else (case map parseInt10 (split_on (CHR ''-'') s) of
                  Num y # Num m # Num d # _ \<Rightarrow> Some (Date_UTC y (m - 1) d)
                | _ \<Rightarrow> (case Date_parse E s of None \<Rightarrow> None | Some t \<Rightarrow> Some (Some t)))
      | DObj tv \<Rightarrow> (case tv of None \<Rightarrow> None | Some t \<Rightarrow> Some (Some t)))"

definition diffHours :: "int \<Rightarrow> int \<Rightarrow> rat" where
  "diffHours a b = of_int \<bar>a - b\<bar> / (1000 * 60 * 60)"

definition selectCandidateInvoices :: "env \<Rightarrow> world \<Rightarrow> error + invoice list" where
  "selectCandidateInvoices E w =
     (case query_error E SelectCandidates of
        Some e \<Rightarrow> Inl e
      | None \<Rightarrow>
          Inr (map (\<lambda>r. r\<lparr>chase_paused := Undefined, updated_at := DNull\<rparr>)
                 (filter (\<lambda>r. (status r = ''unpaid'' \<or> status r = ''overdue'')
                              \<and> due_before_CURRENT_DATE E (due_date r))
                    (invoices w))))"

text \<open>
  \<^verbatim>\<open>computeDaysOverdue\<close>, with \<open>now\<close> the clock reading it takes. An Invalid Date as due
  date makes the difference \<open>NaN\<close>, which \<^verbatim>\<open>Math.floor\<close> and \<^verbatim>\<open>Math.max\<close> keep. The floor
  of the quotient is the integer division; the double quotient has the same floor for
  dates less than 2^27 days apart.
\<close>

definition computeDaysOverdue :: "env \<Rightarrow> int \<Rightarrow> invoice \<Rightarrow> jsnum" where
  "computeDaysOverdue E now invoice =
     (case (case overdue_days invoice of Some n \<Rightarrow> if 0 \<le> n then Some n else None | None \<Rightarrow> None) of
        Some n \<Rightarrow> Num n
      | None \<Rightarrow>
          (case parseDateOnly E (due_date invoice) of
             None \<Rightarrow> Num 0
           | Some None \<Rightarrow> NaN
           | Some (Some due) \<Rightarrow> Num (max 0 ((now - due) div msPerDay))))"

text \<open>Truthiness of a date column and \<^verbatim>\<open>new Date(v)\<close> (\<^verbatim>\<open>new Date(null)\<close> is the epoch).\<close>

fun truthy :: "datefield \<Rightarrow> bool" where
  "truthy DNull = False"
| "truthy (DStr s) = (s \<noteq> [])"
| "truthy (DObj tv) = True"

fun new_Date :: "env \<Rightarrow> datefield \<Rightarrow> int option" where
  "new_Date E DNull = Some 0"
| "new_Date E (DStr s) = Date_parse E s"
| "new_Date E (DObj tv) = tv"

text \<open>
  \<^verbatim>\<open>parseInt(invoice.chase_count || 0, 10)\<close>: the column is an integer or NULL, and
  \<^verbatim>\<open>parseInt\<close> of an integer is that integer.
\<close>

definition currentCount :: "invoice \<Rightarrow> int" where
  "currentCount invoice = (case chase_count invoice of None \<Rightarrow> 0 | Some n \<Rightarrow> n)"

text \<open>A number bound to an INTEGER parameter of a statement.\<close>

fun sql_int :: "jsnum \<Rightarrow> int option" where
  "sql_int NaN = None"
| "sql_int (Num n) = Some n"

text \<open>The INSERT into \<^verbatim>\<open>chase_emails\<close> (lines 151-154).\<close>

definition insertChaseEmail :: "env \<Rightarrow> invoice \<Rightarrow> jsnum \<Rightarrow> email_content \<Rightarrow> world \<Rightarrow> error + world" where
  "insertChaseEmail E invoice daysOverdue emailContent w =
     (case query_error E (InsertChaseEmail (iid invoice)) of
        Some e \<Rightarrow> Inl e
      | None \<Rightarrow>
          Inr (w\<lparr>chase_emails := chase_emails w @
                 [\<lparr>ce_invoice_id = iid invoice, ce_template_id = None,
                   ce_overdue_day = sql_int daysOverdue,
                   ce_generated_text = body emailContent,
                   ce_subject_line = subject emailContent,
                   ce_sent_at = CURRENT_TIMESTAMP E, ce_status = ''sent'',
                   ce_sent_to = customer_email invoice\<rparr>]\<rparr>))"

text \<open>The UPDATE of \<^verbatim>\<open>invoices\<close> (lines 156-164): every row whose id is the parameter.\<close>

definition updateInvoice :: "env \<Rightarrow> jsnum \<Rightarrow> int \<Rightarrow> world \<Rightarrow> error + world" where
  "updateInvoice E daysOverdue i w =
     (case query_error E (UpdateInvoice i) of
        Some e \<Rightarrow> Inl e
      | None \<Rightarrow>
          Inr (w\<lparr>invoices :=
                 map (\<lambda>r. if iid r = i
                           then r\<lparr>last_chase_date := CURRENT_TIMESTAMP E,
                                  chase_count := Some ((case chase_count r of None \<Rightarrow> 0 | Some n \<Rightarrow> n) + 1),
                                  overdue_days := sql_int daysOverdue,
                                  status := ''overdue'',
                                  updated_at := CURRENT_TIMESTAMP E\<rparr>
                           else r)
                   (invoices w)\<rparr>))"

text \<open>
  Lines 124-130: with no payment link given, one is fetched from the billing provider; a
  failure there is caught and the link stays as it was.
\<close>

definition fetchPaymentLink :: "env \<Rightarrow> invoice \<Rightarrow> string option \<Rightarrow> string option" where
  "fetchPaymentLink E invoice paymentLink =
     (if paymentLink = None \<or> paymentLink = Some []
      then (case getPaymentLink E (stripe_invoice_id invoice) of
              Inl e \<Rightarrow> paymentLink
            | Inr l \<Rightarrow> Some l)
      else paymentLink)"

text \<open>The two arguments of \<^verbatim>\<open>generateChaseEmail\<close> (lines 131-138).\<close>

definition chaseFacts :: "invoice \<Rightarrow> jsnum \<Rightarrow> chase_facts" where
  "chaseFacts invoice daysOverdue =
     \<lparr>cf_stripe_invoice_id = stripe_invoice_id invoice,
      cf_customer_email = customer_email invoice,
      cf_customer_name = customer_name invoice,
      cf_amount = amount invoice,
      cf_due_date = due_date invoice,
      cf_overdue_days = daysOverdue\<rparr>"

definition linkOrPlaceholder :: "string option \<Rightarrow> string" where
  "linkOrPlaceholder paymentLink =
     (case paymentLink of
        None \<Rightarrow> ''{payment_link}''
      | Some l \<Rightarrow> if l = [] then ''{payment_link}'' else l)"

text \<open>The arguments of \<^verbatim>\<open>sendChaseEmail\<close> (lines 140-148).\<close>

definition chaseMail :: "invoice \<Rightarrow> email_content \<Rightarrow> string option \<Rightarrow> chase_mail" where
  "chaseMail invoice emailContent paymentLink =
     \<lparr>cm_stripe_invoice_id = stripe_invoice_id invoice,
      cm_customer_email = customer_email invoice,
      cm_customer_name = customer_name invoice,
      cm_content = emailContent,
      cm_paymentLink = paymentLink\<rparr>"

text \<open>
  Lines 150-167: the INSERT, then the UPDATE, then \<^verbatim>\<open>return true\<close>. The two statements are
  separate calls of \<^verbatim>\<open>executeQuery\<close>; when one is rejected the exception leaves the function
  with what the earlier one has written.
\<close>

definition recordChase ::
  "env \<Rightarrow> invoice \<Rightarrow> jsnum \<Rightarrow> email_content \<Rightarrow> world \<Rightarrow> (error + bool) \<times> world" where
  "recordChase E invoice daysOverdue emailContent w =
     (case insertChaseEmail E invoice daysOverdue emailContent w of
        Inl e \<Rightarrow> (Inl e, w)
      | Inr w2 \<Rightarrow>
          (case updateInvoice E daysOverdue (iid invoice) w2 of
             Inl e \<Rightarrow> (Inl e, w2)
           | Inr w3 \<Rightarrow> (Inr True, w3)))"

text \<open>
  Lines 123-167 of \<^verbatim>\<open>maybeSendChase\<close>, reached once every gate has passed: fetch the payment
  link, generate the text, send it, then record the chase. A rejected promise of the
  generator or of the sender leaves the function as an exception (\<open>Inl\<close>) before anything
  is written.
\<close>

definition sendAndRecord ::
  "env \<Rightarrow> invoice \<Rightarrow> jsnum \<Rightarrow> string option \<Rightarrow> world \<Rightarrow> (error + bool) \<times> world" where
  "sendAndRecord E invoice daysOverdue paymentLink0 w =
     (let paymentLink = fetchPaymentLink E invoice paymentLink0
      in case generateChaseEmail E (chaseFacts invoice daysOverdue) (linkOrPlaceholder paymentLink) of
           Inl e \<Rightarrow> (Inl e, w)
         | Inr emailContent \<Rightarrow>
             (case sendChaseEmail E (chaseMail invoice emailContent paymentLink) of
                Inl e \<Rightarrow> (Inl e, w)
              | Inr u \<Rightarrow>
                  recordChase E invoice daysOverdue emailContent
                    (w\<lparr>outbox := outbox w @ [chaseMail invoice emailContent paymentLink]\<rparr>)))"

text \<open>
  \<^verbatim>\<open>maybeSendChase(invoice, configMap, paymentLink, options)\<close>, started when the clock has
  been read \<open>k\<close> times: line 83 takes reading \<open>k\<close>, \<^verbatim>\<open>computeDaysOverdue\<close> reading \<open>k + 1\<close>.
  The result is the returned boolean, or the exception thrown, and the state left behind.
  The comparison of line 116 is exact here; in double arithmetic it gives the same answer
  for every whole number of milliseconds.
\<close>

definition maybeSendChase ::
  "env \<Rightarrow> nat \<Rightarrow> invoice \<Rightarrow> (string \<rightharpoonup> string) \<Rightarrow> string option \<Rightarrow> options \<Rightarrow> world
     \<Rightarrow> (error + bool) \<times> world" where
  "maybeSendChase E k invoice configMap paymentLink opts w =
     (let now = nowProvider E k;
          daysOverdue = computeDaysOverdue E (nowProvider E (k + 1)) invoice;
          requiredIntervalHours = getIntervalHoursForOverdueDays daysOverdue
      in case requiredIntervalHours of
           None \<Rightarrow> (Inr False, w)
         | Some req \<Rightarrow>
             if get_or configMap ''chase_enabled'' ''true'' = ''false'' then (Inr False, w)
             else if \<not> bypassPaused opts
                     \<and> (chase_paused invoice = FNum 1 \<or> chase_paused invoice = FBool True)
               then (Inr False, w)
             else if (case parseInt10 (get_or configMap ''max_chase_count'' ''4'') of
                        NaN \<Rightarrow> False
                      | Num maxChaseCount \<Rightarrow> maxChaseCount \<le> currentCount invoice)
               then (Inr False, w)
             else if \<not> bypassInterval opts \<and> truthy (last_chase_date invoice)
                     \<and> (case new_Date E (last_chase_date invoice) of
                           None \<Rightarrow> False
                         | Some lastDate \<Rightarrow> diffHours now lastDate < of_int req - 1 / 100)
               then (Inr False, w)
             else sendAndRecord E invoice daysOverdue paymentLink w)"

text \<open>
  The condition under which lines 87-121 return nothing, so that line 123 is reached: the
  negation of each gate, in the order of the code.
\<close>

definition passesGates :: "env \<Rightarrow> nat \<Rightarrow> invoice \<Rightarrow> (string \<rightharpoonup> string) \<Rightarrow> options \<Rightarrow> bool" where
  "passesGates E k invoice configMap opts =
     (case getIntervalHoursForOverdueDays (computeDaysOverdue E (nowProvider E (k + 1)) invoice) of
        None \<Rightarrow> False
      | Some req \<Rightarrow>
          get_or configMap ''chase_enabled'' ''true'' \<noteq> ''false''
          \<and> (bypassPaused opts
               \<or> (chase_paused invoice \<noteq> FNum 1 \<and> chase_paused invoice \<noteq> FBool True))
          \<and> (case parseInt10 (get_or configMap ''max_chase_count'' ''4'') of
                NaN \<Rightarrow> True
              | Num maxChaseCount \<Rightarrow> currentCount invoice < maxChaseCount)
          \<and> (bypassInterval opts \<or> \<not> truthy (last_chase_date invoice)
               \<or> (case new_Date E (last_chase_date invoice) of
                     None \<Rightarrow> True
                   | Some lastDate \<Rightarrow> of_int req - 1 / 100 \<le> diffHours (nowProvider E k) lastDate)))"

text \<open>
  The loop of \<^verbatim>\<open>processOverdueChasing\<close> (lines 175-184): each candidate is evaluated with no
  payment link and no option; an exception is caught and the loop goes on. Every call of
  \<^verbatim>\<open>maybeSendChase\<close> reads the clock twice.
\<close>

fun chaseLoop ::
  "env \<Rightarrow> nat \<Rightarrow> (string \<rightharpoonup> string) \<Rightarrow> invoice list \<Rightarrow> nat \<Rightarrow> world \<Rightarrow> nat \<times> world" where
  "chaseLoop E k configMap [] sentCount w = (sentCount, w)"
| "chaseLoop E k configMap (invoice # rest) sentCount w =
     (case maybeSendChase E k invoice configMap None \<lparr>bypassPaused = False, bypassInterval = False\<rparr> w of
        (Inr sent, w') \<Rightarrow> chaseLoop E (k + 2) configMap rest (if sent then sentCount + 1 else sentCount) w'
      | (Inl err, w') \<Rightarrow> chaseLoop E (k + 2) configMap rest sentCount w')"

record batch_result =
  sent :: nat
  totalCandidates :: nat

definition processOverdueChasing :: "env \<Rightarrow> nat \<Rightarrow> world \<Rightarrow> (error + batch_result) \<times> world" where
  "processOverdueChasing E k w =
     (case getAppConfigMap E w of
        Inl e \<Rightarrow> (Inl e, w)
      | Inr configMap \<Rightarrow>
          (case selectCandidateInvoices E w of
             Inl e \<Rightarrow> (Inl e, w)
           | Inr invs \<Rightarrow>
               (case chaseLoop E k configMap invs 0 w of
                  (sentCount, w') \<Rightarrow>
                    (Inr \<lparr>sent = sentCount, totalCandidates = length invs\<rparr>, w'))))"

section \<open>The invoice routes\<close>

datatype response = NOT_FOUND | Success bool | INTERNAL_ERROR

text \<open>
  \<^verbatim>\<open>POST /api/invoices/:id/expedite\<close>. The handler first loads the row and the
  configuration (lines 238-245), then calls \<^verbatim>\<open>maybeSendChase\<close> with both bypass options set
  (line 246). Each \<^verbatim>\<open>await\<close> hands control back to the event loop, so another request or
  the batch may run between the two parts.
\<close>

definition expediteLoad :: "env \<Rightarrow> int \<Rightarrow> world \<Rightarrow> response + invoice \<times> (string \<rightharpoonup> string)" where
  "expediteLoad E i w =
     (case query_error E (SelectInvoice i) of
        Some e \<Rightarrow> Inl INTERNAL_ERROR
      | None \<Rightarrow>
          (case filter (\<lambda>r. iid r = i) (invoices w) of
             [] \<Rightarrow> Inl NOT_FOUND
           | invoice # rows \<Rightarrow>
               (case query_error E SelectAppConfig of
                  Some e \<Rightarrow> Inl INTERNAL_ERROR
                | None \<Rightarrow> Inr (invoice, config_of_rows (app_config w)))))"

definition expediteSend ::
  "env \<Rightarrow> nat \<Rightarrow> invoice \<times> (string \<rightharpoonup> string) \<Rightarrow> world \<Rightarrow> response \<times> world" where
  "expediteSend E k loaded w =
     (case maybeSendChase E k (fst loaded) (snd loaded) None
             \<lparr>bypassPaused = True, bypassInterval = True\<rparr> w of
        (Inl e, w') \<Rightarrow> (INTERNAL_ERROR, w')
      | (Inr b, w') \<Rightarrow> (Success b, w'))"

definition expedite :: "env \<Rightarrow> nat \<Rightarrow> int \<Rightarrow> world \<Rightarrow> response \<times> world" where
  "expedite E k i w =
     (case expediteLoad E i w of
        Inl r \<Rightarrow> (r, w)
      | Inr loaded \<Rightarrow> expediteSend E k loaded w)"

text \<open>
  \<^verbatim>\<open>computeNextChaseInfo\<close>. Lines 132-138 choose the interval from the stored
  \<^verbatim>\<open>overdue_days\<close>, taken as 0 when it is not a number. \<open>next_chase_date\<close> is the time value
  that \<^verbatim>\<open>toISOString\<close> prints; on an Invalid Date \<^verbatim>\<open>toISOString\<close> throws a RangeError.
\<close>

record next_chase_info =
  next_chase_date :: "int option"
  days_until_next_chase :: "int option"

definition hoursInterval :: "invoice \<Rightarrow> int option" where
  "hoursInterval invoice =
     (let daysOverdue = (case overdue_days invoice of Some n \<Rightarrow> n | None \<Rightarrow> 0)
      in if 10 \<le> daysOverdue then Some 24
         else if 7 \<le> daysOverdue then Some 48
         else if 5 \<le> daysOverdue then Some 72
         else None)"

definition computeNextChaseInfo :: "env \<Rightarrow> int \<Rightarrow> invoice \<Rightarrow> error + next_chase_info" where
  "computeNextChaseInfo E now invoice =
     (let lastDate = (if truthy (last_chase_date invoice)
                      then Some (new_Date E (last_chase_date invoice)) else None)
      in case hoursInterval invoice of
           None \<Rightarrow> Inr \<lparr>next_chase_date = None, days_until_next_chase = None\<rparr>
         | Some h \<Rightarrow>
             (let nextDate = (case lastDate of
                                Some tv \<Rightarrow> (case tv of
                                             None \<Rightarrow> None
                                           | Some t \<Rightarrow> TimeClip (t + h * 60 * 60 * 1000))
                              | None \<Rightarrow> Some now)
              in case nextDate of
                   None \<Rightarrow> Inl RangeError
                 | Some nd \<Rightarrow>
                     Inr \<lparr>next_chase_date = Some nd,
                          days_until_next_chase =
                            Some (max 0 \<lceil>(of_int (nd - now) :: rat) / of_int msPerDay\<rceil>)\<rparr>))"

section \<open>Runs of evaluations\<close>

text \<open>The id and the chase count (NULL counting as 0) of every invoice row, in table order.\<close>

definition chaseCounts :: "world \<Rightarrow> (int \<times> int) list" where
  "chaseCounts w = map (\<lambda>r. (iid r, currentCount r)) (invoices w)"

definition countAfterSend :: "int \<Rightarrow> (int \<times> int) list \<Rightarrow> (int \<times> int) list" where
  "countAfterSend i cs = map (\<lambda>p. (fst p, if fst p = i then snd p + 1 else snd p)) cs"

definition countsLe :: "(int \<times> int) list \<Rightarrow> (int \<times> int) list \<Rightarrow> bool" where
  "countsLe cs ds = list_all2 (\<lambda>p q. fst q = fst p \<and> snd p \<le> snd q) cs ds"

text \<open>
  One call of \<^verbatim>\<open>maybeSendChase\<close> with everything it is given, and a sequence of such calls,
  each on the state the one before has left, whether it returned or threw.
\<close>

record evaluation =
  ev_env :: env
  ev_k :: nat
  ev_invoice :: invoice
  ev_configMap :: "string \<rightharpoonup> string"
  ev_paymentLink :: "string option"
  ev_options :: options

definition evaluate :: "evaluation \<Rightarrow> world \<Rightarrow> (error + bool) \<times> world" where
  "evaluate ev w =
     maybeSendChase (ev_env ev) (ev_k ev) (ev_invoice ev) (ev_configMap ev) (ev_paymentLink ev)
       (ev_options ev) w"

fun runEvaluations :: "evaluation list \<Rightarrow> world \<Rightarrow> world" where
  "runEvaluations [] w = w"
| "runEvaluations (ev # evs) w = runEvaluations evs (snd (evaluate ev w))"

text \<open>
  In a batch run over the candidates \<open>invs\<close>: the state before the \<open>i\<close>-th candidate is
  reached, and what evaluating that candidate on this state gives.
\<close>

definition worldBefore ::
  "env \<Rightarrow> nat \<Rightarrow> (string \<rightharpoonup> string) \<Rightarrow> invoice list \<Rightarrow> world \<Rightarrow> nat \<Rightarrow> world" where
  "worldBefore E k configMap invs w i = snd (chaseLoop E k configMap (take i invs) 0 w)"

definition candidateOutcome ::
  "env \<Rightarrow> nat \<Rightarrow> (string \<rightharpoonup> string) \<Rightarrow> invoice list \<Rightarrow> world \<Rightarrow> nat \<Rightarrow> (error + bool) \<times> world" where
  "candidateOutcome E k configMap invs w i =
     maybeSendChase E (k + 2 * i) (invs ! i) configMap None
       \<lparr>bypassPaused = False, bypassInterval = False\<rparr> (worldBefore E k configMap invs w i)"

text \<open>
  Two expedite requests for the same invoice whose handlers interleave at their
  \<^verbatim>\<open>await\<close>s: both load the row and the configuration, then the first sends, then the
  second sends with what it had loaded.
\<close>

definition concurrentExpedite ::
  "env \<Rightarrow> nat \<Rightarrow> int \<Rightarrow> world \<Rightarrow> (response \<times> response) \<times> world" where
  "concurrentExpedite E k i w =
     (case expediteLoad E i w of
        Inl r \<Rightarrow> ((r, r), w)
      | Inr loaded \<Rightarrow>
          (case expediteSend E k loaded w of
             (r1, w1) \<Rightarrow>
               (case expediteSend E (k + 2) loaded w1 of
                  (r2, w2) \<Rightarrow> ((r1, r2), w2))))"

section \<open>Sample data\<close>

text \<open>
  An environment in which every collaborator and every statement succeeds, at
  2024-03-05T00:00:00Z, and an overdue invoice that has not been chased yet.
\<close>

definition sample_env :: env where
  "sample_env =
     \<lparr>nowProvider = (\<lambda>n. 1709596800000),
      Date_parse = (\<lambda>s. None),
      getPaymentLink = (\<lambda>s. Inr ''https://pay.example/i''),
      generateChaseEmail = (\<lambda>f l. Inr \<lparr>subject = ''Payment reminder'', body = ''Please pay''\<rparr>),
      sendChaseEmail = (\<lambda>m. Inr ()),
      CURRENT_TIMESTAMP = DObj (Some 1709596800000),
      due_before_CURRENT_DATE = (\<lambda>d. True),
      query_error = (\<lambda>q. None)\<rparr>"

definition sample_invoice :: invoice where
  "sample_invoice =
     \<lparr>iid = 7, stripe_invoice_id = ''in_1'', customer_email = ''ann@example.com'',
      customer_name = ''Ann'', amount = ''120.00'', due_date = DStr ''2024-02-22'',
      status = ''overdue'', overdue_days = Some 12, last_chase_date = DNull,
      chase_count = Some 0, chase_paused = FNum 0, updated_at = DNull\<rparr>"

definition sample_config :: "(string \<times> string option) list" where
  "sample_config = [(''chase_enabled'', Some ''true''), (''max_chase_count'', Some ''4'')]"

definition sample_world :: "invoice \<Rightarrow> world" where
  "sample_world invoice =
     \<lparr>invoices = [invoice], chase_emails = [], app_config = sample_config, outbox = []\<rparr>"

text \<open>The same invoice, 8 days overdue and last chased the given number of hours ago.\<close>

definition chased_ago :: "int \<Rightarrow> invoice" where
  "chased_ago hours =
     sample_invoice\<lparr>overdue_days := Some 8,
                    last_chase_date := DObj (Some (1709596800000 - hours * (1000 * 60 * 60)))\<rparr>"

text \<open>
  A batch of three candidates in an environment where the delivery to the second one is
  rejected, and an environment where every delivery fails.
\<close>

definition bob_rejected_env :: env where
  "bob_rejected_env =
     sample_env\<lparr>sendChaseEmail :=
       (\<lambda>m. if cm_customer_email m = ''bob@example.com''
             then Inl (CollaboratorError ''rejected'') else Inr ())\<rparr>"

definition three_invoices :: "invoice list" where
  "three_invoices =
     [sample_invoice,
      sample_invoice\<lparr>iid := 8, stripe_invoice_id := ''in_2'', customer_email := ''bob@example.com''\<rparr>,
      sample_invoice\<lparr>iid := 9, stripe_invoice_id := ''in_3'', customer_email := ''cy@example.com''\<rparr>]"

definition three_world :: world where
  "three_world = \<lparr>invoices = three_invoices, chase_emails = [], app_config = sample_config, outbox = []\<rparr>"

definition three_candidates :: "invoice list" where
  "three_candidates = map (\<lambda>r. r\<lparr>chase_paused := Undefined, updated_at := DNull\<rparr>) three_invoices"

definition unreachable_env :: env where
  "unreachable_env = sample_env\<lparr>sendChaseEmail := (\<lambda>m. Inl (CollaboratorError ''unreachable''))\<rparr>"

section \<open>Properties of the chase service\<close>

subsection \<open>The shape of an evaluation\<close>

lemmas sample_defs = sample_env_def sample_invoice_def sample_config_def sample_world_def

lemmas parse_defs = parseInt10_def is_ws_def is_digit_def digits_value_def

lemmas gate_defs = passesGates_def computeDaysOverdue_def getIntervalHoursForOverdueDays_def
  get_or_def config_of_rows_def currentCount_def diffHours_def

lemmas send_defs = sendAndRecord_def recordChase_def insertChaseEmail_def updateInvoice_def
  fetchPaymentLink_def chaseFacts_def linkOrPlaceholder_def chaseMail_def

text \<open>An evaluation either stops at a gate, with nothing done, or runs the send path.\<close>

lemma maybeSendChase_passesGates:
  "maybeSendChase E k invoice configMap paymentLink opts w =
     (if passesGates E k invoice configMap opts
      then sendAndRecord E invoice (computeDaysOverdue E (nowProvider E (k + 1)) invoice) paymentLink w
      else (Inr False, w))"
proof (cases "getIntervalHoursForOverdueDays (computeDaysOverdue E (nowProvider E (k + 1)) invoice)")
  case None
  then show ?thesis by (simp add: maybeSendChase_def passesGates_def)
next
  case (Some req)
  then show ?thesis
    unfolding maybeSendChase_def passesGates_def Let_def
    by (cases "parseInt10 (get_or configMap ''max_chase_count'' ''4'')";
        cases "new_Date E (last_chase_date invoice)") (auto simp: not_less not_le)
qed

lemma recordChase_not_False: "fst (recordChase E invoice d c w) \<noteq> Inr False"
  unfolding recordChase_def by (simp split: sum.splits)

lemma sendAndRecord_not_False: "fst (sendAndRecord E invoice d paymentLink w) \<noteq> Inr False"
  unfolding sendAndRecord_def Let_def
  by (simp add: recordChase_not_False split: sum.splits)

lemma maybeSendChase_False_unchanged:
  assumes "maybeSendChase E k invoice configMap paymentLink opts w = (Inr False, w')"
  shows "w' = w"
proof (cases "passesGates E k invoice configMap opts")
  case True
  with assms have "sendAndRecord E invoice (computeDaysOverdue E (nowProvider E (k + 1)) invoice) paymentLink w = (Inr False, w')"
    by (simp add: maybeSendChase_passesGates)
  then have "fst (sendAndRecord E invoice (computeDaysOverdue E (nowProvider E (k + 1)) invoice) paymentLink w) = Inr False"
    by simp
  then show ?thesis using sendAndRecord_not_False by blast
next
  case False
  with assms show ?thesis by (simp add: maybeSendChase_passesGates)
qed

subsection \<open>Below the threshold\<close>

text \<open>
  C7. When the days overdue computed for the invoice are fewer than 5, \<open>maybeSendChase\<close>
  returns false and the state, that is every invoice row, the chase log and the messages
  sent, is what it was.
\<close>

theorem below_threshold_no_effect:
  assumes "js_lt (computeDaysOverdue E (nowProvider E (k + 1)) invoice) 5"
  shows "maybeSendChase E k invoice configMap paymentLink opts w = (Inr False, w)"
proof -
  from assms have "getIntervalHoursForOverdueDays (computeDaysOverdue E (nowProvider E (k + 1)) invoice) = None"
    by (cases "computeDaysOverdue E (nowProvider E (k + 1)) invoice")
       (simp_all add: getIntervalHoursForOverdueDays_def)
  then show ?thesis by (simp add: maybeSendChase_def)
qed

theorem below_threshold_no_effect_witness:
  "js_lt (computeDaysOverdue sample_env (nowProvider sample_env (0 + 1)) (sample_invoice\<lparr>overdue_days := Some 4\<rparr>)) 5
   \<and> maybeSendChase sample_env 0 (sample_invoice\<lparr>overdue_days := Some 4\<rparr>)
        (config_of_rows sample_config) None \<lparr>bypassPaused = True, bypassInterval = True\<rparr>
        (sample_world (sample_invoice\<lparr>overdue_days := Some 4\<rparr>))
      = (Inr False, sample_world (sample_invoice\<lparr>overdue_days := Some 4\<rparr>))"
proof -
  have h: "js_lt (computeDaysOverdue sample_env (nowProvider sample_env (0 + 1)) (sample_invoice\<lparr>overdue_days := Some 4\<rparr>)) 5"
    by (simp add: computeDaysOverdue_def sample_invoice_def)
  show ?thesis using h below_threshold_no_effect [OF h] by simp
qed

subsection \<open>The cap\<close>

text \<open>
  C3. When the configured maximum parses to a number and the invoice's chase count has
  reached it, \<open>maybeSendChase\<close> returns false and changes nothing, whatever the options are;
  so does the expedite call, which sets both bypass options.
\<close>

theorem cap_never_bypassed:
  assumes "parseInt10 (get_or configMap ''max_chase_count'' ''4'') = Num maxChaseCount"
    and "maxChaseCount \<le> currentCount invoice"
  shows "maybeSendChase E k invoice configMap paymentLink opts w = (Inr False, w)
         \<and> expediteSend E k (invoice, configMap) w = (Success False, w)"
proof -
  from assms have "\<not> passesGates E k invoice configMap opts" for opts
    by (simp add: passesGates_def split: option.splits)
  then show ?thesis
    by (simp add: maybeSendChase_passesGates expediteSend_def)
qed

theorem cap_never_bypassed_witness:
  "parseInt10 (get_or (config_of_rows sample_config) ''max_chase_count'' ''4'') = Num 4
   \<and> 4 \<le> currentCount (sample_invoice\<lparr>chase_count := Some 4\<rparr>)
   \<and> passesGates sample_env 0 (sample_invoice\<lparr>chase_count := Some 3\<rparr>) (config_of_rows sample_config)
        \<lparr>bypassPaused = True, bypassInterval = True\<rparr>
   \<and> maybeSendChase sample_env 0 (sample_invoice\<lparr>chase_count := Some 4\<rparr>) (config_of_rows sample_config)
        None \<lparr>bypassPaused = True, bypassInterval = True\<rparr> (sample_world (sample_invoice\<lparr>chase_count := Some 4\<rparr>))
      = (Inr False, sample_world (sample_invoice\<lparr>chase_count := Some 4\<rparr>))"
proof -
  have p: "parseInt10 (get_or (config_of_rows sample_config) ''max_chase_count'' ''4'') = Num 4"
    by (simp add: get_or_def config_of_rows_def sample_config_def parse_defs)
  have c: "4 \<le> currentCount (sample_invoice\<lparr>chase_count := Some 4\<rparr>)"
    by (simp add: currentCount_def)
  have g: "passesGates sample_env 0 (sample_invoice\<lparr>chase_count := Some 3\<rparr>) (config_of_rows sample_config)
        \<lparr>bypassPaused = True, bypassInterval = True\<rparr>"
    by (simp add: gate_defs sample_defs parse_defs)
  show ?thesis using p c g cap_never_bypassed [OF p c] by simp
qed

subsection \<open>The chase count\<close>

lemma countsLe_refl: "countsLe cs cs"
  by (simp add: countsLe_def list_all2_same)

lemma countsLe_trans: "countsLe as bs \<Longrightarrow> countsLe bs cs \<Longrightarrow> countsLe as cs"
  unfolding countsLe_def
  by (rule list_all2_trans [where ?P1.0 = "\<lambda>p q. fst q = fst p \<and> snd p \<le> snd q"
        and ?P2.0 = "\<lambda>p q. fst q = fst p \<and> snd p \<le> snd q"]) auto

lemma countsLe_countAfterSend: "countsLe cs (countAfterSend i cs)"
  by (simp add: countsLe_def countAfterSend_def list_all2_map2 list_all2_same)

lemma insertChaseEmail_counts:
  "insertChaseEmail E invoice d c w = Inr w' \<Longrightarrow> chaseCounts w' = chaseCounts w"
  by (auto simp: insertChaseEmail_def chaseCounts_def split: option.splits)

lemma updateInvoice_counts:
  "updateInvoice E d i w = Inr w' \<Longrightarrow> chaseCounts w' = countAfterSend i (chaseCounts w)"
  by (auto simp: updateInvoice_def chaseCounts_def countAfterSend_def currentCount_def
           split: option.splits)

lemma recordChase_counts:
  assumes "recordChase E invoice d c w = (r, w')"
  shows "chaseCounts w' = (if r = Inr True then countAfterSend (iid invoice) (chaseCounts w) else chaseCounts w)"
proof (cases "insertChaseEmail E invoice d c w")
  case (Inl e)
  with assms show ?thesis by (auto simp: recordChase_def)
next
  case (Inr w2)
  note ins = this
  show ?thesis
  proof (cases "updateInvoice E d (iid invoice) w2")
    case (Inl e)
    with assms ins show ?thesis
      by (auto simp: recordChase_def dest: insertChaseEmail_counts)
  next
    case (Inr w3)
    with assms ins show ?thesis
      by (auto simp: recordChase_def dest!: insertChaseEmail_counts updateInvoice_counts)
  qed
qed

lemma sendAndRecord_counts:
  assumes "sendAndRecord E invoice d paymentLink w = (r, w')"
  shows "chaseCounts w' = (if r = Inr True then countAfterSend (iid invoice) (chaseCounts w) else chaseCounts w)"
proof (cases "generateChaseEmail E (chaseFacts invoice d) (linkOrPlaceholder (fetchPaymentLink E invoice paymentLink))")
  case (Inl e)
  with assms show ?thesis by (auto simp: sendAndRecord_def)
next
  case (Inr c)
  note gen = this
  show ?thesis
  proof (cases "sendChaseEmail E (chaseMail invoice c (fetchPaymentLink E invoice paymentLink))")
    case (Inl e)
    with assms gen show ?thesis by (auto simp: sendAndRecord_def)
  next
    case (Inr u)
    with assms gen have "recordChase E invoice d c
        (w\<lparr>outbox := outbox w @ [chaseMail invoice c (fetchPaymentLink E invoice paymentLink)]\<rparr>) = (r, w')"
      by (simp add: sendAndRecord_def)
    from recordChase_counts [OF this] show ?thesis by (simp add: chaseCounts_def)
  qed
qed

lemma maybeSendChase_counts:
  assumes "maybeSendChase E k invoice configMap paymentLink opts w = (r, w')"
  shows "chaseCounts w' = (if r = Inr True then countAfterSend (iid invoice) (chaseCounts w) else chaseCounts w)"
proof (cases "passesGates E k invoice configMap opts")
  case True
  with assms have "sendAndRecord E invoice (computeDaysOverdue E (nowProvider E (k + 1)) invoice) paymentLink w = (r, w')"
    by (simp add: maybeSendChase_passesGates)
  then show ?thesis by (rule sendAndRecord_counts)
next
  case False
  with assms show ?thesis by (auto simp: maybeSendChase_passesGates)
qed

lemma maybeSendChase_countsLe:
  "countsLe (chaseCounts w) (chaseCounts (snd (maybeSendChase E k invoice configMap paymentLink opts w)))"
proof -
  obtain r w' where e: "maybeSendChase E k invoice configMap paymentLink opts w = (r, w')"
    by (cases "maybeSendChase E k invoice configMap paymentLink opts w")
  from maybeSendChase_counts [OF e] show ?thesis
    by (simp add: e countsLe_refl countsLe_countAfterSend)
qed

lemma runEvaluations_countsLe: "countsLe (chaseCounts w) (chaseCounts (runEvaluations evs w))"
proof (induction evs arbitrary: w)
  case Nil
  show ?case by (simp add: countsLe_refl)
next
  case (Cons ev evs)
  have "countsLe (chaseCounts w) (chaseCounts (snd (evaluate ev w)))"
    by (simp add: evaluate_def maybeSendChase_countsLe)
  moreover have "countsLe (chaseCounts (snd (evaluate ev w))) (chaseCounts (runEvaluations (ev # evs) w))"
    using Cons.IH [of "snd (evaluate ev w)"] by simp
  ultimately show ?case by (rule countsLe_trans)
qed

text \<open>
  C6. An evaluation that returns true adds exactly 1 to the chase count of the rows of the
  evaluated invoice and leaves the count of every other row; an evaluation that returns
  false leaves every count; and over any sequence of evaluations, including those that
  throw, no row's count decreases.
\<close>

theorem chase_count_monotone:
  "(maybeSendChase E k invoice configMap paymentLink opts w = (Inr True, w')
      \<longrightarrow> chaseCounts w' = countAfterSend (iid invoice) (chaseCounts w))
   \<and> (maybeSendChase E k invoice configMap paymentLink opts w = (Inr False, w')
      \<longrightarrow> chaseCounts w' = chaseCounts w)
   \<and> countsLe (chaseCounts w) (chaseCounts (runEvaluations evs w))"
proof (intro conjI impI)
  assume "maybeSendChase E k invoice configMap paymentLink opts w = (Inr True, w')"
  from maybeSendChase_counts [OF this]
  show "chaseCounts w' = countAfterSend (iid invoice) (chaseCounts w)" by simp
next
  assume "maybeSendChase E k invoice configMap paymentLink opts w = (Inr False, w')"
  from maybeSendChase_counts [OF this]
  show "chaseCounts w' = chaseCounts w" by simp
next
  show "countsLe (chaseCounts w) (chaseCounts (runEvaluations evs w))"
    by (rule runEvaluations_countsLe)
qed

theorem chase_count_monotone_witness:
  "maybeSendChase sample_env 0 sample_invoice (config_of_rows sample_config) None
       \<lparr>bypassPaused = False, bypassInterval = False\<rparr> (sample_world sample_invoice)
     = (Inr True, snd (maybeSendChase sample_env 0 sample_invoice (config_of_rows sample_config) None
          \<lparr>bypassPaused = False, bypassInterval = False\<rparr> (sample_world sample_invoice)))
   \<and> chaseCounts (snd (maybeSendChase sample_env 0 sample_invoice (config_of_rows sample_config) None
          \<lparr>bypassPaused = False, bypassInterval = False\<rparr> (sample_world sample_invoice)))
     = [(7, 1)]
   \<and> maybeSendChase sample_env 0 (sample_invoice\<lparr>chase_paused := FNum 1\<rparr>) (config_of_rows sample_config) None
       \<lparr>bypassPaused = False, bypassInterval = False\<rparr> (sample_world sample_invoice)
     = (Inr False, sample_world sample_invoice)
   \<and> chaseCounts (sample_world sample_invoice) = [(7, 0)]"
proof -
  let ?go = "maybeSendChase sample_env 0 sample_invoice (config_of_rows sample_config) None
       \<lparr>bypassPaused = False, bypassInterval = False\<rparr> (sample_world sample_invoice)"
  have g: "passesGates sample_env 0 sample_invoice (config_of_rows sample_config)
       \<lparr>bypassPaused = False, bypassInterval = False\<rparr>"
    by (simp add: gate_defs sample_defs parse_defs)
  have "fst ?go = Inr True"
    by (simp add: maybeSendChase_passesGates g)
       (simp add: sendAndRecord_def recordChase_def insertChaseEmail_def updateInvoice_def sample_env_def)
  then have t: "?go = (Inr True, snd ?go)"
    by (metis prod.collapse)
  have p: "\<not> passesGates sample_env 0 (sample_invoice\<lparr>chase_paused := FNum 1\<rparr>) (config_of_rows sample_config)
       \<lparr>bypassPaused = False, bypassInterval = False\<rparr>"
    by (simp add: gate_defs sample_defs parse_defs)
  have f: "maybeSendChase sample_env 0 (sample_invoice\<lparr>chase_paused := FNum 1\<rparr>) (config_of_rows sample_config) None
       \<lparr>bypassPaused = False, bypassInterval = False\<rparr> (sample_world sample_invoice)
     = (Inr False, sample_world sample_invoice)"
    by (simp add: maybeSendChase_passesGates p)
  have c0: "chaseCounts (sample_world sample_invoice) = [(7, 0)]"
    by (simp add: chaseCounts_def currentCount_def sample_defs)
  have i: "iid sample_invoice = 7"
    by (simp add: sample_invoice_def)
  from chase_count_monotone [of sample_env 0 sample_invoice "config_of_rows sample_config" None
       "\<lparr>bypassPaused = False, bypassInterval = False\<rparr>" "sample_world sample_invoice" "snd ?go" "[]"] t
  have "chaseCounts (snd ?go) = countAfterSend 7 [(7, 0)]"
    by (simp add: c0 i)
  then have c1: "chaseCounts (snd ?go) = [(7, 1)]"
    by (simp add: countAfterSend_def)
  from chase_count_monotone [of sample_env 0 "sample_invoice\<lparr>chase_paused := FNum 1\<rparr>"
       "config_of_rows sample_config" None "\<lparr>bypassPaused = False, bypassInterval = False\<rparr>"
       "sample_world sample_invoice" "sample_world sample_invoice" "[]"] f
  have "chaseCounts (sample_world sample_invoice) = chaseCounts (sample_world sample_invoice)"
    by blast
  with t c1 f c0 show ?thesis by simp
qed

subsection \<open>The batch run\<close>


lemma chaseLoop_append:
  "chaseLoop E k configMap (xs @ ys) n w =
     (case chaseLoop E k configMap xs n w of
        (n', w') \<Rightarrow> chaseLoop E (k + 2 * length xs) configMap ys n' w')"
proof (induction xs arbitrary: k n w)
  case Nil
  show ?case by simp
next
  case (Cons x xs)
  show ?case
    by (cases "maybeSendChase E k x configMap None \<lparr>bypassPaused = False, bypassInterval = False\<rparr> w")
       (simp add: Cons.IH split: sum.splits)
qed

lemma chaseLoop_single:
  "chaseLoop E k configMap [x] n w =
     (if fst (maybeSendChase E k x configMap None \<lparr>bypassPaused = False, bypassInterval = False\<rparr> w) = Inr True
      then n + 1 else n,
      snd (maybeSendChase E k x configMap None \<lparr>bypassPaused = False, bypassInterval = False\<rparr> w))"
  by (cases "maybeSendChase E k x configMap None \<lparr>bypassPaused = False, bypassInterval = False\<rparr> w")
     (auto split: sum.splits)

lemma chaseLoop_snoc:
  "chaseLoop E k configMap (xs @ [x]) 0 w =
     (fst (chaseLoop E k configMap xs 0 w)
        + (if fst (maybeSendChase E (k + 2 * length xs) x configMap None
                     \<lparr>bypassPaused = False, bypassInterval = False\<rparr> (snd (chaseLoop E k configMap xs 0 w))) = Inr True
           then 1 else 0),
      snd (maybeSendChase E (k + 2 * length xs) x configMap None
             \<lparr>bypassPaused = False, bypassInterval = False\<rparr> (snd (chaseLoop E k configMap xs 0 w))))"
  by (cases "chaseLoop E k configMap xs 0 w")
     (simp add: chaseLoop_append chaseLoop_single del: chaseLoop.simps)

lemma worldBefore_Suc:
  assumes "i < length invs"
  shows "worldBefore E k configMap invs w (Suc i) = snd (candidateOutcome E k configMap invs w i)"
proof -
  from assms have "take (Suc i) invs = take i invs @ [invs ! i]"
    by (simp add: take_Suc_conv_app_nth)
  moreover from assms have "length (take i invs) = i" by simp
  ultimately show ?thesis
    by (simp add: worldBefore_def candidateOutcome_def chaseLoop_snoc)
qed

lemma candidateOutcome_snoc:
  assumes "i < length xs"
  shows "candidateOutcome E k configMap (xs @ [x]) w i = candidateOutcome E k configMap xs w i"
  using assms by (simp add: candidateOutcome_def worldBefore_def nth_append)

lemma chaseLoop_counts_outcomes:
  "fst (chaseLoop E k configMap invs 0 w) =
     length (filter (\<lambda>i. fst (candidateOutcome E k configMap invs w i) = Inr True) [0..<length invs])"
proof (induction invs rule: rev_induct)
  case Nil
  show ?case by simp
next
  case (snoc x xs)
  have old: "filter (\<lambda>i. fst (candidateOutcome E k configMap (xs @ [x]) w i) = Inr True) [0..<length xs]
           = filter (\<lambda>i. fst (candidateOutcome E k configMap xs w i) = Inr True) [0..<length xs]"
    by (rule filter_cong) (simp_all add: candidateOutcome_snoc)
  have new: "candidateOutcome E k configMap (xs @ [x]) w (length xs)
           = maybeSendChase E (k + 2 * length xs) x configMap None
               \<lparr>bypassPaused = False, bypassInterval = False\<rparr> (snd (chaseLoop E k configMap xs 0 w))"
    by (simp add: candidateOutcome_def worldBefore_def)
  show ?case
    by (simp add: chaseLoop_snoc old new snoc.IH)
qed

text \<open>
  C8. The batch run evaluates every candidate. Its count of sends is the number of
  candidates whose evaluation returned true, each candidate being evaluated on the state
  that the evaluation of the one before has left, whether that one returned or threw; and
  once the two initial queries have succeeded the run returns this count with the number
  of candidates, whatever the evaluations did.
\<close>

theorem batch_evaluates_every_candidate:
  "fst (chaseLoop E k configMap invs 0 w) =
     length (filter (\<lambda>i. fst (candidateOutcome E k configMap invs w i) = Inr True) [0..<length invs])
   \<and> (\<forall>i<length invs. worldBefore E k configMap invs w (Suc i) = snd (candidateOutcome E k configMap invs w i))
   \<and> (getAppConfigMap E w = Inr configMap \<and> selectCandidateInvoices E w = Inr invs \<longrightarrow>
        processOverdueChasing E k w =
          (Inr \<lparr>sent = length (filter (\<lambda>i. fst (candidateOutcome E k configMap invs w i) = Inr True) [0..<length invs]),
                totalCandidates = length invs\<rparr>,
           worldBefore E k configMap invs w (length invs)))"
proof (intro conjI allI impI)
  show "fst (chaseLoop E k configMap invs 0 w) =
     length (filter (\<lambda>i. fst (candidateOutcome E k configMap invs w i) = Inr True) [0..<length invs])"
    by (rule chaseLoop_counts_outcomes)
next
  fix i assume "i < length invs"
  then show "worldBefore E k configMap invs w (Suc i) = snd (candidateOutcome E k configMap invs w i)"
    by (rule worldBefore_Suc)
next
  assume a: "getAppConfigMap E w = Inr configMap \<and> selectCandidateInvoices E w = Inr invs"
  obtain n w' where l: "chaseLoop E k configMap invs 0 w = (n, w')"
    by (cases "chaseLoop E k configMap invs 0 w")
  from l have "n = fst (chaseLoop E k configMap invs 0 w)" by simp
  then have n: "n = length (filter (\<lambda>i. fst (candidateOutcome E k configMap invs w i) = Inr True) [0..<length invs])"
    by (simp add: chaseLoop_counts_outcomes)
  from l have w': "w' = worldBefore E k configMap invs w (length invs)"
    by (simp add: worldBefore_def)
  from a l show "processOverdueChasing E k w =
          (Inr \<lparr>sent = length (filter (\<lambda>i. fst (candidateOutcome E k configMap invs w i) = Inr True) [0..<length invs]),
                totalCandidates = length invs\<rparr>,
           worldBefore E k configMap invs w (length invs))"
    by (simp add: processOverdueChasing_def n w')
qed

theorem batch_evaluates_every_candidate_witness:
  "getAppConfigMap bob_rejected_env three_world = Inr (config_of_rows sample_config)
   \<and> selectCandidateInvoices bob_rejected_env three_world = Inr three_candidates
   \<and> fst (candidateOutcome bob_rejected_env 0 (config_of_rows sample_config) three_candidates three_world 1)
       = Inl (CollaboratorError ''rejected'')
   \<and> fst (candidateOutcome bob_rejected_env 0 (config_of_rows sample_config) three_candidates three_world 2)
       = Inr True
   \<and> fst (processOverdueChasing bob_rejected_env 0 three_world) = Inr \<lparr>sent = 2, totalCandidates = 3\<rparr>
   \<and> length (filter (\<lambda>i. fst (candidateOutcome bob_rejected_env 0 (config_of_rows sample_config)
                               three_candidates three_world i) = Inr True)
               [0..<length three_candidates]) = 2"
proof -
  let ?c = "config_of_rows sample_config"
  have a: "getAppConfigMap bob_rejected_env three_world = Inr ?c"
    by (simp add: getAppConfigMap_def bob_rejected_env_def three_world_def three_invoices_def three_candidates_def sample_defs)
  have b: "selectCandidateInvoices bob_rejected_env three_world = Inr three_candidates"
    by (simp add: selectCandidateInvoices_def bob_rejected_env_def three_world_def three_invoices_def three_candidates_def sample_defs)
  have p: "fst (processOverdueChasing bob_rejected_env 0 three_world) = Inr \<lparr>sent = 2, totalCandidates = 3\<rparr>"
    by (simp add: processOverdueChasing_def getAppConfigMap_def selectCandidateInvoices_def
          bob_rejected_env_def three_world_def three_invoices_def three_candidates_def sample_defs)
       (simp add: maybeSendChase_def send_defs gate_defs parse_defs Let_def)
  have o1: "fst (candidateOutcome bob_rejected_env 0 ?c three_candidates three_world 1)
       = Inl (CollaboratorError ''rejected'')"
    by (simp add: candidateOutcome_def worldBefore_def bob_rejected_env_def three_world_def three_invoices_def three_candidates_def sample_defs)
       (simp add: maybeSendChase_def send_defs gate_defs parse_defs Let_def)
  have o2: "fst (candidateOutcome bob_rejected_env 0 ?c three_candidates three_world 2) = Inr True"
    by (simp add: candidateOutcome_def worldBefore_def bob_rejected_env_def three_world_def three_invoices_def three_candidates_def sample_defs numeral_2_eq_2)
       (simp add: maybeSendChase_def send_defs gate_defs parse_defs Let_def)
  define L where
    "L = length (filter (\<lambda>i. fst (candidateOutcome bob_rejected_env 0 ?c three_candidates three_world i) = Inr True)
                   [0..<length three_candidates])"
  from batch_evaluates_every_candidate [of bob_rejected_env 0 ?c three_candidates three_world] a b
  have "processOverdueChasing bob_rejected_env 0 three_world =
          (Inr \<lparr>sent = L, totalCandidates = length three_candidates\<rparr>,
           worldBefore bob_rejected_env 0 ?c three_candidates three_world (length three_candidates))"
    unfolding L_def by blast
  then have "fst (processOverdueChasing bob_rejected_env 0 three_world)
      = Inr \<lparr>sent = L, totalCandidates = length three_candidates\<rparr>"
    by simp
  with p have "L = 2"
    by simp
  then have l: "length (filter (\<lambda>i. fst (candidateOutcome bob_rejected_env 0 ?c three_candidates three_world i) = Inr True)
                   [0..<length three_candidates]) = 2"
    unfolding L_def .
  from a b p o1 o2 l show ?thesis by blast
qed

subsection \<open>A maximum that is not a number\<close>


lemma recordChase_succeeds:
  assumes "\<forall>q. query_error E q = None"
  shows "fst (recordChase E invoice d c w) = Inr True"
  using assms by (simp add: recordChase_def insertChaseEmail_def updateInvoice_def)

lemma sendAndRecord_succeeds:
  assumes gen: "\<forall>f l. \<exists>c. generateChaseEmail E f l = Inr c"
    and snd: "\<forall>m. sendChaseEmail E m = Inr ()"
    and qry: "\<forall>q. query_error E q = None"
  shows "fst (sendAndRecord E invoice d paymentLink w) = Inr True"
proof -
  from gen obtain c where
    "generateChaseEmail E (chaseFacts invoice d) (linkOrPlaceholder (fetchPaymentLink E invoice paymentLink)) = Inr c"
    by blast
  with snd show ?thesis
    by (simp add: sendAndRecord_def recordChase_succeeds [OF qry])
qed




subsection \<open>The interval gate\<close>

text \<open>
  C5. For an invoice with a valid last chase date, no interval bypass and a required
  interval \<open>req\<close>: when the hours since the last chase are fewer than \<open>req - 0.01\<close>,
  \<open>maybeSendChase\<close> returns false and changes nothing. At 8 days overdue the interval is
  48 hours: a chase 30 hours ago is not eligible; one 50 hours ago passes the gates when
  the other gates pass, and the send path runs.
\<close>

theorem interval_gate:
  assumes "truthy (last_chase_date invoice)"
    and "new_Date E (last_chase_date invoice) = Some lastDate"
    and "\<not> bypassInterval opts"
    and "getIntervalHoursForOverdueDays (computeDaysOverdue E (nowProvider E (k + 1)) invoice) = Some req"
  shows "(diffHours (nowProvider E k) lastDate < of_int req - 1 / 100
            \<longrightarrow> maybeSendChase E k invoice configMap paymentLink opts w = (Inr False, w))
       \<and> (computeDaysOverdue E (nowProvider E (k + 1)) invoice = Num 8
            \<and> nowProvider E k - lastDate = 30 * (1000 * 60 * 60)
            \<longrightarrow> req = 48 \<and> maybeSendChase E k invoice configMap paymentLink opts w = (Inr False, w))
       \<and> (computeDaysOverdue E (nowProvider E (k + 1)) invoice = Num 8
            \<and> nowProvider E k - lastDate = 50 * (1000 * 60 * 60)
            \<and> get_or configMap ''chase_enabled'' ''true'' \<noteq> ''false''
            \<and> (bypassPaused opts \<or> (chase_paused invoice \<noteq> FNum 1 \<and> chase_paused invoice \<noteq> FBool True))
            \<and> (case parseInt10 (get_or configMap ''max_chase_count'' ''4'') of
                  NaN \<Rightarrow> True | Num maxChaseCount \<Rightarrow> currentCount invoice < maxChaseCount)
            \<longrightarrow> req = 48 \<and> passesGates E k invoice configMap opts
                \<and> maybeSendChase E k invoice configMap paymentLink opts w
                    = sendAndRecord E invoice (Num 8) paymentLink w)"
proof (intro conjI impI)
  assume "diffHours (nowProvider E k) lastDate < of_int req - 1 / 100"
  with assms have "\<not> passesGates E k invoice configMap opts"
    by (simp add: passesGates_def)
  then show "maybeSendChase E k invoice configMap paymentLink opts w = (Inr False, w)"
    by (simp add: maybeSendChase_passesGates)
next
  assume a: "computeDaysOverdue E (nowProvider E (k + 1)) invoice = Num 8
            \<and> nowProvider E k - lastDate = 30 * (1000 * 60 * 60)"
  with assms(4) show r: "req = 48"
    by (simp add: getIntervalHoursForOverdueDays_def)
  from a have "diffHours (nowProvider E k) lastDate = 30"
    by (simp add: diffHours_def)
  with assms r have "\<not> passesGates E k invoice configMap opts"
    by (simp add: passesGates_def)
  then show "maybeSendChase E k invoice configMap paymentLink opts w = (Inr False, w)"
    by (simp add: maybeSendChase_passesGates)
next
  assume a: "computeDaysOverdue E (nowProvider E (k + 1)) invoice = Num 8
            \<and> nowProvider E k - lastDate = 50 * (1000 * 60 * 60)
            \<and> get_or configMap ''chase_enabled'' ''true'' \<noteq> ''false''
            \<and> (bypassPaused opts \<or> (chase_paused invoice \<noteq> FNum 1 \<and> chase_paused invoice \<noteq> FBool True))
            \<and> (case parseInt10 (get_or configMap ''max_chase_count'' ''4'') of
                  NaN \<Rightarrow> True | Num maxChaseCount \<Rightarrow> currentCount invoice < maxChaseCount)"
  with assms(4) show r: "req = 48"
    by (simp add: getIntervalHoursForOverdueDays_def)
  from a have "diffHours (nowProvider E k) lastDate = 50"
    by (simp add: diffHours_def)
  with assms r a show g: "passesGates E k invoice configMap opts"
    by (simp add: passesGates_def)
  with a show "maybeSendChase E k invoice configMap paymentLink opts w
                    = sendAndRecord E invoice (Num 8) paymentLink w"
    by (simp add: maybeSendChase_passesGates)
qed

theorem interval_gate_witness:
  "maybeSendChase sample_env 0 (chased_ago 30) (config_of_rows sample_config) None
       \<lparr>bypassPaused = False, bypassInterval = False\<rparr> (sample_world (chased_ago 30))
     = (Inr False, sample_world (chased_ago 30))
   \<and> passesGates sample_env 0 (chased_ago 50) (config_of_rows sample_config)
       \<lparr>bypassPaused = False, bypassInterval = False\<rparr>
   \<and> fst (maybeSendChase sample_env 0 (chased_ago 50) (config_of_rows sample_config) None
       \<lparr>bypassPaused = False, bypassInterval = False\<rparr> (sample_world (chased_ago 50)))
     = Inr True"
proof -
  let ?o = "\<lparr>bypassPaused = False, bypassInterval = False\<rparr>"
  let ?c = "config_of_rows sample_config"
  have d: "computeDaysOverdue sample_env (nowProvider sample_env (0 + 1)) (chased_ago h) = Num 8" for h
    by (simp add: computeDaysOverdue_def chased_ago_def)
  have r: "getIntervalHoursForOverdueDays (computeDaysOverdue sample_env (nowProvider sample_env (0 + 1)) (chased_ago h)) = Some 48" for h
    using d [of h] by (simp add: getIntervalHoursForOverdueDays_def)
  have t: "truthy (last_chase_date (chased_ago h))" for h
    by (simp add: chased_ago_def)
  have n: "new_Date sample_env (last_chase_date (chased_ago h)) = Some (1709596800000 - h * (1000 * 60 * 60))" for h
    by (simp add: chased_ago_def)
  have b: "\<not> bypassInterval ?o"
    by simp
  have a30: "computeDaysOverdue sample_env (nowProvider sample_env (0 + 1)) (chased_ago 30) = Num 8
      \<and> nowProvider sample_env 0 - (1709596800000 - 30 * (1000 * 60 * 60)) = 30 * (1000 * 60 * 60)"
    using d [of 30] by (simp add: sample_env_def)
  have a50: "computeDaysOverdue sample_env (nowProvider sample_env (0 + 1)) (chased_ago 50) = Num 8
      \<and> nowProvider sample_env 0 - (1709596800000 - 50 * (1000 * 60 * 60)) = 50 * (1000 * 60 * 60)
      \<and> get_or ?c ''chase_enabled'' ''true'' \<noteq> ''false''
      \<and> (bypassPaused ?o \<or> (chase_paused (chased_ago 50) \<noteq> FNum 1 \<and> chase_paused (chased_ago 50) \<noteq> FBool True))
      \<and> (case parseInt10 (get_or ?c ''max_chase_count'' ''4'') of
            NaN \<Rightarrow> True | Num maxChaseCount \<Rightarrow> currentCount (chased_ago 50) < maxChaseCount)"
    using d [of 50]
    by (simp add: sample_defs chased_ago_def get_or_def config_of_rows_def parse_defs currentCount_def)
  from interval_gate [OF t n b r, of 30 ?c None "sample_world (chased_ago 30)"] a30
  have f: "maybeSendChase sample_env 0 (chased_ago 30) ?c None ?o (sample_world (chased_ago 30))
     = (Inr False, sample_world (chased_ago 30))"
    by blast
  from interval_gate [OF t n b r, of 50 ?c None "sample_world (chased_ago 50)"] a50
  have g: "passesGates sample_env 0 (chased_ago 50) ?c ?o
     \<and> maybeSendChase sample_env 0 (chased_ago 50) ?c None ?o (sample_world (chased_ago 50))
        = sendAndRecord sample_env (chased_ago 50) (Num 8) None (sample_world (chased_ago 50))"
    by blast
  have "fst (sendAndRecord sample_env (chased_ago 50) (Num 8) None (sample_world (chased_ago 50))) = Inr True"
    by (rule sendAndRecord_succeeds) (simp_all add: sample_env_def)
  with f g show ?thesis by simp
qed

subsection \<open>The next-chase accessor\<close>

text \<open>
  C9, as stated, fails: for an invoice whose stored \<^verbatim>\<open>overdue_days\<close> is NULL and whose due
  date is 12 days back, the service computes 12 days overdue and an interval of 24 hours,
  while \<open>computeNextChaseInfo\<close> takes 0 days, no interval, and answers null.
\<close>

theorem next_chase_interval_differs:
  "hoursInterval (sample_invoice\<lparr>overdue_days := None\<rparr>) = None
   \<and> getIntervalHoursForOverdueDays
        (computeDaysOverdue sample_env 1709596800000 (sample_invoice\<lparr>overdue_days := None\<rparr>)) = Some 24
   \<and> computeNextChaseInfo sample_env 1709596800000 (sample_invoice\<lparr>overdue_days := None\<rparr>)
        = Inr \<lparr>next_chase_date = None, days_until_next_chase = None\<rparr>"
proof -
  have "computeDaysOverdue sample_env 1709596800000 (sample_invoice\<lparr>overdue_days := None\<rparr>) = Num 12"
    by (simp add: computeDaysOverdue_def parseDateOnly_def sample_invoice_def parse_defs
          Date_UTC_def TimeClip_def MakeDay_def msPerDay_def DayFromYear_def DaysBeforeMonth_def
          InLeapYear_def)
  moreover have "hoursInterval (sample_invoice\<lparr>overdue_days := None\<rparr>) = None"
    by (simp add: hoursInterval_def)
  ultimately show ?thesis
    by (simp add: getIntervalHoursForOverdueDays_def computeNextChaseInfo_def)
qed

lemma hoursInterval_policy:
  "hoursInterval invoice =
     getIntervalHoursForOverdueDays (Num (case overdue_days invoice of Some n \<Rightarrow> n | None \<Rightarrow> 0))"
  by (simp add: hoursInterval_def getIntervalHoursForOverdueDays_def)

text \<open>
  C9, amended. The interval that \<open>computeNextChaseInfo\<close> uses is the interval policy applied
  to the stored \<^verbatim>\<open>overdue_days\<close>, 0 when NULL; this is the interval of the service whenever
  the stored value is a number that is not negative. The next chase date is null below the
  threshold, now when the invoice was never chased, and the last chase date plus the
  interval when that date is valid and the sum is a date.
\<close>

theorem next_chase_info_projection:
  "hoursInterval invoice =
     getIntervalHoursForOverdueDays (Num (case overdue_days invoice of Some n \<Rightarrow> n | None \<Rightarrow> 0))
   \<and> (overdue_days invoice = Some n \<and> 0 \<le> n \<longrightarrow>
        hoursInterval invoice = getIntervalHoursForOverdueDays (computeDaysOverdue E engineNow invoice))
   \<and> (hoursInterval invoice = None \<longrightarrow>
        computeNextChaseInfo E now invoice = Inr \<lparr>next_chase_date = None, days_until_next_chase = None\<rparr>)
   \<and> (hoursInterval invoice = Some h \<and> \<not> truthy (last_chase_date invoice) \<longrightarrow>
        computeNextChaseInfo E now invoice = Inr \<lparr>next_chase_date = Some now, days_until_next_chase = Some 0\<rparr>)
   \<and> (hoursInterval invoice = Some h \<and> truthy (last_chase_date invoice)
        \<and> new_Date E (last_chase_date invoice) = Some t \<and> \<bar>t + h * 60 * 60 * 1000\<bar> \<le> 8640000000000000 \<longrightarrow>
        (\<exists>d. computeNextChaseInfo E now invoice =
               Inr \<lparr>next_chase_date = Some (t + h * 60 * 60 * 1000), days_until_next_chase = Some d\<rparr>))"
proof (intro conjI impI)
  show "hoursInterval invoice =
     getIntervalHoursForOverdueDays (Num (case overdue_days invoice of Some n \<Rightarrow> n | None \<Rightarrow> 0))"
    by (rule hoursInterval_policy)
next
  assume "overdue_days invoice = Some n \<and> 0 \<le> n"
  then show "hoursInterval invoice = getIntervalHoursForOverdueDays (computeDaysOverdue E engineNow invoice)"
    by (simp add: hoursInterval_policy computeDaysOverdue_def)
next
  assume "hoursInterval invoice = None"
  then show "computeNextChaseInfo E now invoice = Inr \<lparr>next_chase_date = None, days_until_next_chase = None\<rparr>"
    by (simp add: computeNextChaseInfo_def)
next
  assume "hoursInterval invoice = Some h \<and> \<not> truthy (last_chase_date invoice)"
  then show "computeNextChaseInfo E now invoice = Inr \<lparr>next_chase_date = Some now, days_until_next_chase = Some 0\<rparr>"
    by (simp add: computeNextChaseInfo_def)
next
  assume "hoursInterval invoice = Some h \<and> truthy (last_chase_date invoice)
        \<and> new_Date E (last_chase_date invoice) = Some t \<and> \<bar>t + h * 60 * 60 * 1000\<bar> \<le> 8640000000000000"
  then show "\<exists>d. computeNextChaseInfo E now invoice =
               Inr \<lparr>next_chase_date = Some (t + h * 60 * 60 * 1000), days_until_next_chase = Some d\<rparr>"
    by (simp add: computeNextChaseInfo_def TimeClip_def)
qed

theorem next_chase_info_projection_witness:
  "hoursInterval (sample_invoice\<lparr>last_chase_date := DObj (Some 1709500000000)\<rparr>) = Some 24
   \<and> getIntervalHoursForOverdueDays (computeDaysOverdue sample_env 1709596800000
        (sample_invoice\<lparr>last_chase_date := DObj (Some 1709500000000)\<rparr>)) = Some 24
   \<and> (\<exists>d. computeNextChaseInfo sample_env 1709596800000 (sample_invoice\<lparr>last_chase_date := DObj (Some 1709500000000)\<rparr>)
         = Inr \<lparr>next_chase_date = Some 1709586400000, days_until_next_chase = Some d\<rparr>)
   \<and> computeNextChaseInfo sample_env 1709596800000 sample_invoice
         = Inr \<lparr>next_chase_date = Some 1709596800000, days_until_next_chase = Some 0\<rparr>
   \<and> computeNextChaseInfo sample_env 1709596800000 (sample_invoice\<lparr>overdue_days := Some 2\<rparr>)
         = Inr \<lparr>next_chase_date = None, days_until_next_chase = None\<rparr>"
proof -
  let ?i = "sample_invoice\<lparr>last_chase_date := DObj (Some 1709500000000)\<rparr>"
  have o: "overdue_days ?i = Some 12 \<and> (0::int) \<le> 12"
    by (simp add: sample_invoice_def)
  have h: "hoursInterval ?i = Some 24"
    by (simp add: hoursInterval_def sample_invoice_def)
  have l: "hoursInterval ?i = Some 24 \<and> truthy (last_chase_date ?i)
        \<and> new_Date sample_env (last_chase_date ?i) = Some 1709500000000
        \<and> \<bar>1709500000000 + 24 * 60 * 60 * 1000\<bar> \<le> (8640000000000000 :: int)"
    by (simp add: h)
  have n: "hoursInterval sample_invoice = Some 24 \<and> \<not> truthy (last_chase_date sample_invoice)"
    by (simp add: hoursInterval_def sample_invoice_def)
  have b: "hoursInterval (sample_invoice\<lparr>overdue_days := Some 2\<rparr>) = None"
    by (simp add: hoursInterval_def)
  note T = next_chase_info_projection [of ?i 12 sample_env 1709596800000 1709596800000 24 1709500000000]
  from T o have "hoursInterval ?i = getIntervalHoursForOverdueDays (computeDaysOverdue sample_env 1709596800000 ?i)"
    by blast
  with h have e: "getIntervalHoursForOverdueDays (computeDaysOverdue sample_env 1709596800000 ?i) = Some 24"
    by simp
  from T l have "\<exists>d. computeNextChaseInfo sample_env 1709596800000 ?i =
      Inr \<lparr>next_chase_date = Some (1709500000000 + 24 * 60 * 60 * 1000), days_until_next_chase = Some d\<rparr>"
    by blast
  then have x: "\<exists>d. computeNextChaseInfo sample_env 1709596800000 ?i =
      Inr \<lparr>next_chase_date = Some 1709586400000, days_until_next_chase = Some d\<rparr>"
    by simp
  from next_chase_info_projection [of sample_invoice 12 sample_env 1709596800000 1709596800000 24 0] n
  have y: "computeNextChaseInfo sample_env 1709596800000 sample_invoice
         = Inr \<lparr>next_chase_date = Some 1709596800000, days_until_next_chase = Some 0\<rparr>"
    by blast
  from next_chase_info_projection [of "sample_invoice\<lparr>overdue_days := Some 2\<rparr>" 12 sample_env 1709596800000 1709596800000 24 0] b
  have z: "computeNextChaseInfo sample_env 1709596800000 (sample_invoice\<lparr>overdue_days := Some 2\<rparr>)
         = Inr \<lparr>next_chase_date = None, days_until_next_chase = None\<rparr>"
    by blast
  from h e x y z show ?thesis by blast
qed


subsection \<open>A failing collaborator\<close>

text \<open>
  C4, as stated, fails: with every gate passed and the delivery collaborator failing, the
  exception leaves \<open>maybeSendChase\<close> before the INSERT, and the chase log holds no record at
  all, so none with status \<^verbatim>\<open>failed\<close>.
\<close>

theorem failed_delivery_leaves_no_record:
  "passesGates unreachable_env 0 sample_invoice (config_of_rows sample_config)
       \<lparr>bypassPaused = False, bypassInterval = False\<rparr>
   \<and> fst (maybeSendChase unreachable_env 0 sample_invoice (config_of_rows sample_config) None
       \<lparr>bypassPaused = False, bypassInterval = False\<rparr> (sample_world sample_invoice))
     = Inl (CollaboratorError ''unreachable'')
   \<and> map ce_status (chase_emails (snd (maybeSendChase unreachable_env 0 sample_invoice
        (config_of_rows sample_config) None
        \<lparr>bypassPaused = False, bypassInterval = False\<rparr> (sample_world sample_invoice)))) = []"
proof -
  have g: "passesGates unreachable_env 0 sample_invoice (config_of_rows sample_config)
       \<lparr>bypassPaused = False, bypassInterval = False\<rparr>"
    by (simp add: gate_defs sample_defs parse_defs unreachable_env_def)
  have "maybeSendChase unreachable_env 0 sample_invoice (config_of_rows sample_config) None
       \<lparr>bypassPaused = False, bypassInterval = False\<rparr> (sample_world sample_invoice)
     = (Inl (CollaboratorError ''unreachable''), sample_world sample_invoice)"
    by (simp add: maybeSendChase_passesGates g)
       (simp add: send_defs unreachable_env_def sample_env_def)
  with g show ?thesis by (simp add: sample_world_def)
qed

lemma sendAndRecord_collaborator_failure:
  assumes "generateChaseEmail E (chaseFacts invoice d) (linkOrPlaceholder (fetchPaymentLink E invoice paymentLink)) = Inl e
         \<or> (\<exists>c. generateChaseEmail E (chaseFacts invoice d) (linkOrPlaceholder (fetchPaymentLink E invoice paymentLink)) = Inr c
                \<and> sendChaseEmail E (chaseMail invoice c (fetchPaymentLink E invoice paymentLink)) = Inl e)"
  shows "sendAndRecord E invoice d paymentLink w = (Inl e, w)"
  using assms by (auto simp: sendAndRecord_def)

text \<open>
  C4, amended. When the generator or the sender fails for an invoice that has passed the
  gates, \<open>maybeSendChase\<close> throws that error and the state is what it was: no chase record,
  no change to any invoice row, nothing sent. The batch loop catches the error and goes
  on with the remaining candidates; the expedite handler answers with an internal error.
\<close>

theorem collaborator_failure_writes_nothing:
  assumes gates: "passesGates E k invoice configMap opts"
    and fail: "generateChaseEmail E (chaseFacts invoice (computeDaysOverdue E (nowProvider E (k + 1)) invoice))
                 (linkOrPlaceholder (fetchPaymentLink E invoice paymentLink)) = Inl e
         \<or> (\<exists>c. generateChaseEmail E (chaseFacts invoice (computeDaysOverdue E (nowProvider E (k + 1)) invoice))
                    (linkOrPlaceholder (fetchPaymentLink E invoice paymentLink)) = Inr c
                \<and> sendChaseEmail E (chaseMail invoice c (fetchPaymentLink E invoice paymentLink)) = Inl e)"
  shows "maybeSendChase E k invoice configMap paymentLink opts w = (Inl e, w)
       \<and> (opts = \<lparr>bypassPaused = False, bypassInterval = False\<rparr> \<and> paymentLink = None \<longrightarrow>
            chaseLoop E k configMap (invoice # rest) n w = chaseLoop E (k + 2) configMap rest n w)
       \<and> (opts = \<lparr>bypassPaused = True, bypassInterval = True\<rparr> \<and> paymentLink = None \<longrightarrow>
            expediteSend E k (invoice, configMap) w = (INTERNAL_ERROR, w))"
proof -
  have m: "maybeSendChase E k invoice configMap paymentLink opts w = (Inl e, w)"
    using gates sendAndRecord_collaborator_failure [OF fail]
    by (simp add: maybeSendChase_passesGates)
  from m show ?thesis
    by (auto simp: expediteSend_def)
qed

theorem collaborator_failure_writes_nothing_witness:
  "maybeSendChase unreachable_env 0 sample_invoice (config_of_rows sample_config) None
       \<lparr>bypassPaused = False, bypassInterval = False\<rparr> (sample_world sample_invoice)
     = (Inl (CollaboratorError ''unreachable''), sample_world sample_invoice)
   \<and> chaseLoop unreachable_env 0 (config_of_rows sample_config) [sample_invoice] 0 (sample_world sample_invoice)
     = (0, sample_world sample_invoice)
   \<and> expediteSend unreachable_env 0 (sample_invoice, config_of_rows sample_config) (sample_world sample_invoice)
     = (INTERNAL_ERROR, sample_world sample_invoice)"
proof -
  let ?c = "config_of_rows sample_config"
  have g: "passesGates unreachable_env 0 sample_invoice ?c opts" for opts
    by (simp add: gate_defs sample_defs parse_defs unreachable_env_def)
  have f: "generateChaseEmail unreachable_env (chaseFacts sample_invoice (computeDaysOverdue unreachable_env (nowProvider unreachable_env (0 + 1)) sample_invoice))
                 (linkOrPlaceholder (fetchPaymentLink unreachable_env sample_invoice None)) = Inl (CollaboratorError ''unreachable'')
         \<or> (\<exists>c. generateChaseEmail unreachable_env (chaseFacts sample_invoice (computeDaysOverdue unreachable_env (nowProvider unreachable_env (0 + 1)) sample_invoice))
                    (linkOrPlaceholder (fetchPaymentLink unreachable_env sample_invoice None)) = Inr c
                \<and> sendChaseEmail unreachable_env (chaseMail sample_invoice c (fetchPaymentLink unreachable_env sample_invoice None)) = Inl (CollaboratorError ''unreachable''))"
    by (simp add: unreachable_env_def sample_env_def)
  from collaborator_failure_writes_nothing [OF g f, of "\<lparr>bypassPaused = False, bypassInterval = False\<rparr>" "sample_world sample_invoice" "[]" 0]
    collaborator_failure_writes_nothing [OF g f, of "\<lparr>bypassPaused = True, bypassInterval = True\<rparr>" "sample_world sample_invoice" "[]" 0]
  show ?thesis by simp
qed

subsection \<open>Two evaluations of one invoice\<close>

text \<open>
  C2, as stated, fails: two expedite requests for the same invoice that both load the row
  before either sends are both answered with a send, and leave two chase records of status
  \<^verbatim>\<open>sent\<close> and a chase count of 2.
\<close>

theorem concurrent_expedite_sends_twice:
  "fst (concurrentExpedite sample_env 0 7 (sample_world sample_invoice)) = (Success True, Success True)
   \<and> map ce_status (chase_emails (snd (concurrentExpedite sample_env 0 7 (sample_world sample_invoice))))
       = [''sent'', ''sent'']
   \<and> chaseCounts (snd (concurrentExpedite sample_env 0 7 (sample_world sample_invoice))) = [(7, 2)]"
  by (simp add: concurrentExpedite_def expediteLoad_def expediteSend_def sample_defs chaseCounts_def)
     (simp add: maybeSendChase_def send_defs gate_defs parse_defs Let_def)

lemma recordChase_result_indep:
  "fst (recordChase E invoice d c w) = fst (recordChase E invoice d c w2)"
  by (simp add: recordChase_def insertChaseEmail_def updateInvoice_def split: option.splits)

lemma sendAndRecord_result_indep:
  "fst (sendAndRecord E invoice d paymentLink w) = fst (sendAndRecord E invoice d paymentLink w2)"
proof (cases "generateChaseEmail E (chaseFacts invoice d) (linkOrPlaceholder (fetchPaymentLink E invoice paymentLink))")
  case (Inl e)
  then show ?thesis by (simp add: sendAndRecord_def)
next
  case (Inr c)
  then show ?thesis
    by (cases "sendChaseEmail E (chaseMail invoice c (fetchPaymentLink E invoice paymentLink))")
       (simp_all add: sendAndRecord_def
          recordChase_result_indep [of E invoice d c
            "w\<lparr>outbox := outbox w @ [chaseMail invoice c (fetchPaymentLink E invoice paymentLink)]\<rparr>"
            "w2\<lparr>outbox := outbox w2 @ [chaseMail invoice c (fetchPaymentLink E invoice paymentLink)]\<rparr>"])
qed

lemma maybeSendChase_result_indep:
  "fst (maybeSendChase E k invoice configMap paymentLink opts w)
   = fst (maybeSendChase E k invoice configMap paymentLink opts w2)"
  using sendAndRecord_result_indep [of E invoice "computeDaysOverdue E (nowProvider E (k + 1)) invoice" paymentLink w w2]
  by (simp add: maybeSendChase_passesGates)

lemma recordChase_appends:
  assumes "recordChase E invoice d c w = (Inr True, w')"
  shows "\<exists>r. chase_emails w' = chase_emails w @ [r] \<and> ce_status r = ''sent'' \<and> ce_invoice_id r = iid invoice"
  using assms
  by (auto simp: recordChase_def insertChaseEmail_def updateInvoice_def split: option.splits)

lemma sendAndRecord_appends:
  assumes "sendAndRecord E invoice d paymentLink w = (Inr True, w')"
  shows "\<exists>r. chase_emails w' = chase_emails w @ [r] \<and> ce_status r = ''sent'' \<and> ce_invoice_id r = iid invoice"
proof (cases "generateChaseEmail E (chaseFacts invoice d) (linkOrPlaceholder (fetchPaymentLink E invoice paymentLink))")
  case (Inl e)
  with assms show ?thesis by (simp add: sendAndRecord_def)
next
  case (Inr c)
  note gen = this
  show ?thesis
  proof (cases "sendChaseEmail E (chaseMail invoice c (fetchPaymentLink E invoice paymentLink))")
    case (Inl e)
    with assms gen show ?thesis by (simp add: sendAndRecord_def)
  next
    case (Inr u)
    with assms gen have "recordChase E invoice d c
        (w\<lparr>outbox := outbox w @ [chaseMail invoice c (fetchPaymentLink E invoice paymentLink)]\<rparr>) = (Inr True, w')"
      by (simp add: sendAndRecord_def)
    from recordChase_appends [OF this] show ?thesis by simp
  qed
qed

text \<open>
  C2, amended. What an evaluation returns does not depend on the state of the store it
  runs on: a second evaluation of the same invoice with the same inputs returns what the
  first returned, whatever was written in between. The commit is unconditional: an
  evaluation that returns true has appended one chase record of status \<^verbatim>\<open>sent\<close> for the
  invoice and has added 1 to the chase count of the rows with its id, whatever these rows
  held.
\<close>

theorem commit_is_unconditional:
  "fst (maybeSendChase E k invoice configMap paymentLink opts w)
     = fst (maybeSendChase E k invoice configMap paymentLink opts w2)
   \<and> (maybeSendChase E k invoice configMap paymentLink opts w = (Inr True, w') \<longrightarrow>
        (\<exists>r. chase_emails w' = chase_emails w @ [r] \<and> ce_status r = ''sent'' \<and> ce_invoice_id r = iid invoice)
        \<and> chaseCounts w' = countAfterSend (iid invoice) (chaseCounts w))"
proof (intro conjI impI)
  show "fst (maybeSendChase E k invoice configMap paymentLink opts w)
     = fst (maybeSendChase E k invoice configMap paymentLink opts w2)"
    by (rule maybeSendChase_result_indep)
next
  assume a: "maybeSendChase E k invoice configMap paymentLink opts w = (Inr True, w')"
  then have "passesGates E k invoice configMap opts"
    by (auto simp: maybeSendChase_passesGates split: if_splits)
  with a have "sendAndRecord E invoice (computeDaysOverdue E (nowProvider E (k + 1)) invoice) paymentLink w = (Inr True, w')"
    by (simp add: maybeSendChase_passesGates)
  then show "\<exists>r. chase_emails w' = chase_emails w @ [r] \<and> ce_status r = ''sent'' \<and> ce_invoice_id r = iid invoice"
    by (rule sendAndRecord_appends)
next
  assume "maybeSendChase E k invoice configMap paymentLink opts w = (Inr True, w')"
  from maybeSendChase_counts [OF this]
  show "chaseCounts w' = countAfterSend (iid invoice) (chaseCounts w)" by simp
qed

theorem commit_is_unconditional_witness:
  "fst (maybeSendChase sample_env 0 sample_invoice (config_of_rows sample_config) None
          \<lparr>bypassPaused = True, bypassInterval = True\<rparr> (sample_world sample_invoice)) = Inr True
   \<and> fst (maybeSendChase sample_env 0 sample_invoice (config_of_rows sample_config) None
          \<lparr>bypassPaused = True, bypassInterval = True\<rparr>
          (snd (maybeSendChase sample_env 0 sample_invoice (config_of_rows sample_config) None
                  \<lparr>bypassPaused = True, bypassInterval = True\<rparr> (sample_world sample_invoice)))) = Inr True
   \<and> chaseCounts (snd (maybeSendChase sample_env 0 sample_invoice (config_of_rows sample_config) None
          \<lparr>bypassPaused = True, bypassInterval = True\<rparr> (sample_world sample_invoice))) = [(7, 1)]"
proof -
  let ?o = "\<lparr>bypassPaused = True, bypassInterval = True\<rparr>"
  let ?c = "config_of_rows sample_config"
  let ?w = "sample_world sample_invoice"
  let ?go = "maybeSendChase sample_env 0 sample_invoice ?c None ?o ?w"
  have g: "passesGates sample_env 0 sample_invoice ?c ?o"
    by (simp add: gate_defs sample_defs parse_defs)
  have "fst (sendAndRecord sample_env sample_invoice
          (computeDaysOverdue sample_env (nowProvider sample_env (0 + 1)) sample_invoice) None ?w) = Inr True"
    by (rule sendAndRecord_succeeds) (simp_all add: sample_env_def)
  with g have f: "fst ?go = Inr True"
    by (simp add: maybeSendChase_passesGates)
  then have t: "?go = (Inr True, snd ?go)"
    by (metis prod.collapse)
  note T = commit_is_unconditional [of sample_env 0 sample_invoice ?c None ?o ?w "snd ?go" "snd ?go"]
  have e: "fst (maybeSendChase sample_env 0 sample_invoice ?c None ?o (snd ?go)) = fst ?go"
    using conjunct1 [OF T] by (rule sym)
  have s: "fst (maybeSendChase sample_env 0 sample_invoice ?c None ?o (snd ?go)) = Inr True"
    by (simp only: e f)
  from T t have "chaseCounts (snd ?go) = countAfterSend (iid sample_invoice) (chaseCounts ?w)"
    by blast
  then have c: "chaseCounts (snd ?go) = [(7, 1)]"
    by (simp add: countAfterSend_def chaseCounts_def currentCount_def sample_defs)
  from f s c show ?thesis by blast
qed

subsection \<open>Terminal statuses\<close>

text \<open>\<open>maybeSendChase\<close> does not read the status of the invoice.\<close>

lemma computeDaysOverdue_status:
  "computeDaysOverdue E now (invoice\<lparr>status := s\<rparr>) = computeDaysOverdue E now invoice"
  by (simp add: computeDaysOverdue_def cong: option.case_cong)

lemma passesGates_status:
  "passesGates E k (invoice\<lparr>status := s\<rparr>) configMap opts = passesGates E k invoice configMap opts"
  by (simp add: passesGates_def computeDaysOverdue_status currentCount_def
        cong: option.case_cong jsnum.case_cong)

lemma insertChaseEmail_status:
  "insertChaseEmail E (invoice\<lparr>status := s\<rparr>) d c w = insertChaseEmail E invoice d c w"
  by (simp add: insertChaseEmail_def cong: option.case_cong)

lemma recordChase_status:
  "recordChase E (invoice\<lparr>status := s\<rparr>) d c w = recordChase E invoice d c w"
  by (simp add: recordChase_def insertChaseEmail_status cong: sum.case_cong)

lemma fetchPaymentLink_status:
  "fetchPaymentLink E (invoice\<lparr>status := s\<rparr>) paymentLink = fetchPaymentLink E invoice paymentLink"
  by (simp add: fetchPaymentLink_def)

lemma chaseFacts_status: "chaseFacts (invoice\<lparr>status := s\<rparr>) d = chaseFacts invoice d"
  by (simp add: chaseFacts_def)

lemma chaseMail_status: "chaseMail (invoice\<lparr>status := s\<rparr>) c l = chaseMail invoice c l"
  by (simp add: chaseMail_def)

lemma sendAndRecord_status:
  "sendAndRecord E (invoice\<lparr>status := s\<rparr>) d paymentLink w = sendAndRecord E invoice d paymentLink w"
  by (simp add: sendAndRecord_def fetchPaymentLink_status chaseFacts_status chaseMail_status
        recordChase_status cong: sum.case_cong)

lemma maybeSendChase_ignores_status:
  "maybeSendChase E k (invoice\<lparr>status := s\<rparr>) configMap paymentLink opts w
   = maybeSendChase E k invoice configMap paymentLink opts w"
  by (simp add: maybeSendChase_passesGates passesGates_status sendAndRecord_status computeDaysOverdue_status)

text \<open>
  C1. The batch run selects unpaid and overdue invoices only, but the expedite handler
  loads any invoice by id: for a paid invoice, 12 days overdue, the chase is sent, a
  record of status \<^verbatim>\<open>sent\<close> is written and the status of the invoice becomes
  \<^verbatim>\<open>overdue\<close>.
\<close>

theorem expedite_chases_paid_invoice:
  "fst (expedite sample_env 0 7 (sample_world (sample_invoice\<lparr>status := ''paid''\<rparr>))) = Success True
   \<and> map ce_status (chase_emails (snd (expedite sample_env 0 7 (sample_world (sample_invoice\<lparr>status := ''paid''\<rparr>)))))
       = [''sent'']
   \<and> map status (invoices (snd (expedite sample_env 0 7 (sample_world (sample_invoice\<lparr>status := ''paid''\<rparr>)))))
       = [''overdue'']
   \<and> length (outbox (snd (expedite sample_env 0 7 (sample_world (sample_invoice\<lparr>status := ''paid''\<rparr>))))) = 1"
  by (simp add: expedite_def expediteLoad_def expediteSend_def sample_defs)
     (simp add: maybeSendChase_def send_defs gate_defs parse_defs Let_def)

end
